theory Spec2Isabelle
  imports Main "HOL-Library.Word"
begin

section \<open>The data model of package geos\<close>

text \<open>
  The package is a facade over the GEOS C library. The model is sequential: the
  read-write mutex of a \<open>Service\<close> is not represented, every method runs to its end
  before the next one starts.

  Go pointers are addresses (\<open>nat\<close>), a pointer that may be \<open>nil\<close> is an
  \<open>option\<close>. The heap holds an object at every address, so that a non-nil pointer
  always points to an object, as in Go. The handles of the C library
  (\<open>GEOSContextHandle_t\<close>, \<open>*GEOSGeom_t\<close>) are opaque numbers, \<open>None\<close> is
  \<open>NULL\<close>. A \<open>float64\<close> is its 64-bit pattern: the package only passes such values
  on, to the C library and to \<open>fmt.Sprintf\<close>.
\<close>

type_synonym float64 = "64 word"
type_synonym ctx = nat
type_synonym handle = nat
type_synonym sref = nat
type_synonym gref = nat

text \<open>
  \<open>type Service struct { context; mutex }\<close>. The field \<open>s_finalizer\<close> tells whether
  \<open>runtime.SetFinalizer\<close> has a finalizer registered for the object.
\<close>

record Service =
  s_context :: "ctx option"
  s_finalizer :: bool

text \<open>\<open>type Geometry struct { geom; service }\<close>, with its finalizer flag.\<close>

record Geometry =
  geom :: "handle option"
  service :: "sref option"
  g_finalizer :: bool

text \<open>
  Every call into the C library is recorded, in order, with its arguments. The last
  argument of \<open>GEOSBuffer_r\<close> is the number of quadrant segments; the first geometry
  argument of \<open>GEOSUnion_r\<close> is read from a wrapper without a check, so it may be
  \<open>NULL\<close>.
\<close>

datatype engine_call =
    Call_GEOS_init_r
  | Call_GEOS_finish_r ctx
  | Call_GEOSGeom_destroy_r ctx handle
  | Call_GEOSGeomFromWKT_r ctx string
  | Call_GEOSisValid_r ctx handle
  | Call_GEOSGeomToWKT_r ctx handle
  | Call_GEOSWithin_r ctx handle handle
  | Call_GEOSIntersects_r ctx handle handle
  | Call_GEOSDistance_r ctx handle handle
  | Call_GEOSBuffer_r ctx handle float64 int
  | Call_GEOSSimplify_r ctx handle float64
  | Call_GEOSUnion_r ctx "handle option" handle
  | Call_GEOSDifference_r ctx handle handle

text \<open>
  The C library is outside the repository. What it answers is a parameter of the model:
  one function for each entry point that returns something, from the calls made so far
  and the arguments of the call. \<open>GEOSDistance_r\<close> answers its status and the value it
  writes through the pointer.
\<close>

record engine =
  GEOS_init_r :: "engine_call list \<Rightarrow> ctx option"
  GEOSGeomFromWKT_r :: "engine_call list \<Rightarrow> ctx \<Rightarrow> string \<Rightarrow> handle option"
  GEOSisValid_r :: "engine_call list \<Rightarrow> ctx \<Rightarrow> handle \<Rightarrow> int"
  GEOSGeomToWKT_r :: "engine_call list \<Rightarrow> ctx \<Rightarrow> handle \<Rightarrow> string option"
  GEOSWithin_r :: "engine_call list \<Rightarrow> ctx \<Rightarrow> handle \<Rightarrow> handle \<Rightarrow> int"
  GEOSIntersects_r :: "engine_call list \<Rightarrow> ctx \<Rightarrow> handle \<Rightarrow> handle \<Rightarrow> int"
  GEOSDistance_r :: "engine_call list \<Rightarrow> ctx \<Rightarrow> handle \<Rightarrow> handle \<Rightarrow> int \<times> float64"
  GEOSBuffer_r :: "engine_call list \<Rightarrow> ctx \<Rightarrow> handle \<Rightarrow> float64 \<Rightarrow> int \<Rightarrow> handle option"
  GEOSSimplify_r :: "engine_call list \<Rightarrow> ctx \<Rightarrow> handle \<Rightarrow> float64 \<Rightarrow> handle option"
  GEOSUnion_r :: "engine_call list \<Rightarrow> ctx \<Rightarrow> handle option \<Rightarrow> handle \<Rightarrow> handle option"
  GEOSDifference_r :: "engine_call list \<Rightarrow> ctx \<Rightarrow> handle \<Rightarrow> handle \<Rightarrow> handle option"

text \<open>
  The state of the program: the two heaps, the next free address of each, and the calls
  made into the C library so far.
\<close>

record machine =
  services :: "sref \<Rightarrow> Service"
  geometries :: "gref \<Rightarrow> Geometry"
  next_service :: sref
  next_geometry :: gref
  calls :: "engine_call list"

text \<open>
  The errors of the package, one constructor for each \<open>errors.New\<close> and
  \<open>fmt.Errorf\<close> of geos.go; \<open>Error\<close> is the message of each.
\<close>

datatype error =
    InitFailed
  | ContextNotInitialized
  | MissingType
  | MissingCoordinates
  | ConvertFailed error
  | NoGeometryProvided
  | EmptyWKT
  | ParseFailed string
  | InvalidGeometryWKT string
  | InvalidPoint
  | InvalidPolygon
  | InvalidLineString
  | UnsupportedType string
  | InvalidGeometry
  | ToWKTFailed
  | WithinFailed
  | IntersectsFailed
  | DistanceFailed
  | BufferFailed
  | SimplifyFailed
  | NoGeometries
  | UnionFailed
  | DifferenceFailed

fun Error :: "error \<Rightarrow> string" where
  "Error InitFailed = ''failed to initialize GEOS context''"
| "Error ContextNotInitialized = ''GEOS context is not initialized''"
| "Error MissingType = ''invalid GeoJSON: missing type''"
| "Error MissingCoordinates = ''invalid GeoJSON: missing coordinates''"
| "Error (ConvertFailed e) = ''failed to convert GeoJSON to WKT: '' @ Error e"
| "Error NoGeometryProvided = ''no geometry provided: either WKT or GeoJSON is required''"
| "Error EmptyWKT = ''empty WKT string''"
| "Error (ParseFailed wkt) = ''failed to parse WKT geometry: '' @ wkt"
| "Error (InvalidGeometryWKT wkt) = ''invalid geometry: '' @ wkt"
| "Error InvalidPoint = ''invalid Point coordinates''"
| "Error InvalidPolygon = ''invalid Polygon coordinates''"
| "Error InvalidLineString = ''invalid LineString coordinates''"
| "Error (UnsupportedType t) = ''unsupported GeoJSON type: '' @ t"
| "Error InvalidGeometry = ''invalid geometry''"
| "Error ToWKTFailed = ''failed to convert geometry to WKT''"
| "Error WithinFailed = ''GEOS within operation failed''"
| "Error IntersectsFailed = ''GEOS intersects operation failed''"
| "Error DistanceFailed = ''failed to calculate distance''"
| "Error BufferFailed = ''failed to create buffer''"
| "Error SimplifyFailed = ''failed to simplify geometry''"
| "Error NoGeometries = ''no geometries provided''"
| "Error UnionFailed = ''failed to create union''"
| "Error DifferenceFailed = ''failed to create difference''"

section \<open>Service: NewService and Close\<close>

text \<open>One call into the C library: the call is appended to the record.\<close>

definition call :: "engine_call \<Rightarrow> machine \<Rightarrow> machine" where
  "call c m = m\<lparr>calls := calls m @ [c]\<rparr>"

definition NewService :: "engine \<Rightarrow> machine \<Rightarrow> machine \<times> sref option \<times> error option" where
  "NewService E m =
     (case GEOS_init_r E (calls m) of
        None \<Rightarrow> (call Call_GEOS_init_r m, None, Some InitFailed)
      | Some c \<Rightarrow>
          (let m1 = call Call_GEOS_init_r m; a = next_service m1
           in (m1\<lparr>services := (services m1)(a := \<lparr>s_context = Some c, s_finalizer = True\<rparr>),
                   next_service := Suc a\<rparr>,
               Some a, None)))"

text \<open>
  \<open>Close\<close>: the context is handed to \<open>GEOS_finish_r\<close> and set to nil only when it is
  not nil; the finalizer is removed in both cases. The method returns nothing.
\<close>

definition Close :: "machine \<Rightarrow> sref \<Rightarrow> machine" where
  "Close m s =
     (let m1 = (case s_context (services m s) of
                  Some c \<Rightarrow>
                    (let m' = call (Call_GEOS_finish_r c) m
                     in m'\<lparr>services := (services m')(s := (services m' s)\<lparr>s_context := None\<rparr>)\<rparr>)
                | None \<Rightarrow> m)
      in m1\<lparr>services := (services m1)(s := (services m1 s)\<lparr>s_finalizer := False\<rparr>)\<rparr>)"

section \<open>Geometry: newGeometry and destroy\<close>

definition newGeometry :: "machine \<Rightarrow> sref \<Rightarrow> handle option \<Rightarrow> machine \<times> gref option" where
  "newGeometry m s h =
     (case h of
        None \<Rightarrow> (m, None)
      | Some h' \<Rightarrow>
          (let a = next_geometry m
           in (m\<lparr>geometries := (geometries m)(a := \<lparr>geom = Some h', service = Some s, g_finalizer = True\<rparr>),
                  next_geometry := Suc a\<rparr>,
               Some a)))"

text \<open>
  \<open>destroy\<close>: the outer test reads \<open>g.geom\<close>, \<open>g.service\<close> and the context of that
  service; inside it the context is read a second time (under the lock in the source)
  before \<open>GEOSGeom_destroy_r\<close>, and \<open>g.geom = nil\<close> is the last statement of the outer
  branch. The finalizer is removed after the test, whatever its outcome.
\<close>

definition destroy :: "machine \<Rightarrow> gref \<Rightarrow> machine" where
  "destroy m g =
     (let m1 =
        (case (geom (geometries m g), service (geometries m g)) of
           (Some h, Some s) \<Rightarrow>
             (if s_context (services m s) \<noteq> None then
                (let m' = (case s_context (services m s) of
                             Some c \<Rightarrow> call (Call_GEOSGeom_destroy_r c h) m
                           | None \<Rightarrow> m)
                 in m'\<lparr>geometries := (geometries m')(g := (geometries m' g)\<lparr>geom := None\<rparr>)\<rparr>)
              else m)
         | _ \<Rightarrow> m)
      in m1\<lparr>geometries := (geometries m1)(g := (geometries m1 g)\<lparr>g_finalizer := False\<rparr>)\<rparr>)"

section \<open>The conversion of GeoJSON coordinates to WKT\<close>

text \<open>
  The dynamic values (\<open>interface{}\<close>) that the conversion tells apart: a \<open>float64\<close>, a
  \<open>string\<close>, a \<open>[]interface{}\<close>, the nil interface and a value of any other type.
\<close>

datatype goval =
    GoFloat64 float64
  | GoString string
  | GoSlice "goval list"
  | GoNil
  | GoOther

text \<open>
  The test that geoJSONToWKT applies to a coordinate, the same text in its three
  branches: the value is a \<open>[]interface{}\<close> of length at least 2 whose elements 0 and 1
  are both \<open>float64\<close>.
\<close>

definition coordXY :: "goval \<Rightarrow> (float64 \<times> float64) option" where
  "coordXY coord =
     (case coord of
        GoSlice coordArray \<Rightarrow>
          (if 2 \<le> length coordArray then
             (case (coordArray ! 0, coordArray ! 1) of
                (GoFloat64 x, GoFloat64 y) \<Rightarrow> Some (x, y)
              | _ \<Rightarrow> None)
           else None)
      | _ \<Rightarrow> None)"

text \<open>
  The loop \<open>for i, coord := range ...\<close> of the Polygon and LineString branches, which
  is the same in both: \<open>wkt\<close> is the text built so far, \<open>i\<close> the index of the next
  element, \<open>F\<close> the rendering of \<open>%f\<close> by \<open>fmt.Sprintf\<close>.
\<close>

fun coordLoop :: "(float64 \<Rightarrow> string) \<Rightarrow> nat \<Rightarrow> string \<Rightarrow> goval list \<Rightarrow> string" where
  "coordLoop F i wkt [] = wkt"
| "coordLoop F i wkt (coord # rest) =
     (case coordXY coord of
        Some (x, y) \<Rightarrow>
          coordLoop F (Suc i) ((if 0 < i then wkt @ '', '' else wkt) @ F x @ '' '' @ F y) rest
      | None \<Rightarrow> coordLoop F (Suc i) wkt rest)"

definition geoJSONToWKT :: "(float64 \<Rightarrow> string) \<Rightarrow> string \<Rightarrow> goval \<Rightarrow> string \<times> error option" where
  "geoJSONToWKT F geoType coords =
     (if geoType = ''Point'' then
        (case coordXY coords of
           Some (x, y) \<Rightarrow> (''POINT('' @ F x @ '' '' @ F y @ '')'', None)
         | None \<Rightarrow> ([], Some InvalidPoint))
      else if geoType = ''Polygon'' then
        (case coords of
           GoSlice rings \<Rightarrow>
             (if 0 < length rings then
                (case rings ! 0 of
                   GoSlice ring \<Rightarrow>
                     (if 4 \<le> length ring
                      then (coordLoop F 0 ''POLYGON(('' ring @ ''))'', None)
                      else ([], Some InvalidPolygon))
                 | _ \<Rightarrow> ([], Some InvalidPolygon))
              else ([], Some InvalidPolygon))
         | _ \<Rightarrow> ([], Some InvalidPolygon))
      else if geoType = ''LineString'' then
        (case coords of
           GoSlice cs \<Rightarrow>
             (if 2 \<le> length cs
              then (coordLoop F 0 ''LINESTRING('' cs @ '')'', None)
              else ([], Some InvalidLineString))
         | _ \<Rightarrow> ([], Some InvalidLineString))
      else ([], Some (UnsupportedType geoType)))"

section \<open>ParseGeometry\<close>

text \<open>\<open>GeoJSON\<close> is a Go map, which may be nil.\<close>

record GeometryInput =
  WKT :: string
  GeoJSON :: "(string \<rightharpoonup> goval) option"
  SRID :: int

text \<open>
  The part of ParseGeometry that chooses the text to parse: \<open>Inl\<close> is an early
  return with that error, \<open>Inr\<close> the value of the variable \<open>wkt\<close> afterwards.
\<close>

definition inputWKT :: "(float64 \<Rightarrow> string) \<Rightarrow> GeometryInput \<Rightarrow> error + string" where
  "inputWKT F input =
     (if WKT input \<noteq> [] then Inr (WKT input)
      else
        (case GeoJSON input of
           Some gj \<Rightarrow>
             (case gj ''type'' of
                Some (GoString geoType) \<Rightarrow>
                  (case gj ''coordinates'' of
                     None \<Rightarrow> Inl MissingCoordinates
                   | Some coords \<Rightarrow>
                       (case geoJSONToWKT F geoType coords of
                          (wkt, Some err) \<Rightarrow> Inl (ConvertFailed err)
                        | (wkt, None) \<Rightarrow> Inr wkt))
              | _ \<Rightarrow> Inl MissingType)
         | None \<Rightarrow> Inl NoGeometryProvided))"

text \<open>
  \<open>C.CString\<close> and \<open>C.free\<close> belong to the C runtime, not to GEOS, and are not
  recorded; the parser receives the Go string.
\<close>

definition ParseGeometry ::
  "engine \<Rightarrow> (float64 \<Rightarrow> string) \<Rightarrow> machine \<Rightarrow> sref \<Rightarrow> GeometryInput \<Rightarrow> machine \<times> gref option \<times> error option" where
  "ParseGeometry E F m s input =
     (case s_context (services m s) of
        None \<Rightarrow> (m, None, Some ContextNotInitialized)
      | Some c \<Rightarrow>
          (case inputWKT F input of
             Inl err \<Rightarrow> (m, None, Some err)
           | Inr wkt \<Rightarrow>
               (if length wkt = 0 then (m, None, Some EmptyWKT)
                else
                  (let m1 = call (Call_GEOSGeomFromWKT_r c wkt) m
                   in (case GEOSGeomFromWKT_r E (calls m) c wkt of
                         None \<Rightarrow> (m1, None, Some (ParseFailed wkt))
                       | Some h \<Rightarrow>
                           (let m2 = call (Call_GEOSisValid_r c h) m1
                            in (if GEOSisValid_r E (calls m1) c h = 0
                                then (call (Call_GEOSGeom_destroy_r c h) m2, None,
                                      Some (InvalidGeometryWKT wkt))
                                else (case newGeometry m2 s (Some h) of
                                        (m3, g) \<Rightarrow> (m3, g, None)))))))))"

section \<open>The operations on geometries\<close>

text \<open>
  The first test of every operation, \<open>geom == nil || geom.geom == nil\<close>, reads the
  native handle behind a pointer that may be nil.
\<close>

definition nativeHandle :: "machine \<Rightarrow> gref option \<Rightarrow> handle option" where
  "nativeHandle m g = (case g of None \<Rightarrow> None | Some a \<Rightarrow> geom (geometries m a))"

definition ToWKT :: "engine \<Rightarrow> machine \<Rightarrow> sref \<Rightarrow> gref option \<Rightarrow> machine \<times> string \<times> error option" where
  "ToWKT E m s g =
     (case nativeHandle m g of
        None \<Rightarrow> (m, [], Some InvalidGeometry)
      | Some h \<Rightarrow>
          (case s_context (services m s) of
             None \<Rightarrow> (m, [], Some ContextNotInitialized)
           | Some c \<Rightarrow>
               (let m1 = call (Call_GEOSGeomToWKT_r c h) m
                in (case GEOSGeomToWKT_r E (calls m) c h of
                      None \<Rightarrow> (m1, [], Some ToWKTFailed)
                    | Some cWKT \<Rightarrow> (m1, cWKT, None)))))"

definition Within ::
  "engine \<Rightarrow> machine \<Rightarrow> sref \<Rightarrow> gref option \<Rightarrow> gref option \<Rightarrow> machine \<times> bool \<times> error option" where
  "Within E m s a b =
     (case (nativeHandle m a, nativeHandle m b) of
        (Some ha, Some hb) \<Rightarrow>
          (case s_context (services m s) of
             None \<Rightarrow> (m, False, Some ContextNotInitialized)
           | Some c \<Rightarrow>
               (let m1 = call (Call_GEOSWithin_r c ha hb) m;
                    result = GEOSWithin_r E (calls m) c ha hb
                in (if result = 2 then (m1, False, Some WithinFailed)
                    else (m1, result = 1, None))))
      | _ \<Rightarrow> (m, False, Some InvalidGeometry))"

definition Intersects ::
  "engine \<Rightarrow> machine \<Rightarrow> sref \<Rightarrow> gref option \<Rightarrow> gref option \<Rightarrow> machine \<times> bool \<times> error option" where
  "Intersects E m s a b =
     (case (nativeHandle m a, nativeHandle m b) of
        (Some ha, Some hb) \<Rightarrow>
          (case s_context (services m s) of
             None \<Rightarrow> (m, False, Some ContextNotInitialized)
           | Some c \<Rightarrow>
               (let m1 = call (Call_GEOSIntersects_r c ha hb) m;
                    result = GEOSIntersects_r E (calls m) c ha hb
                in (if result = 2 then (m1, False, Some IntersectsFailed)
                    else (m1, result = 1, None))))
      | _ \<Rightarrow> (m, False, Some InvalidGeometry))"

definition Distance ::
  "engine \<Rightarrow> machine \<Rightarrow> sref \<Rightarrow> gref option \<Rightarrow> gref option \<Rightarrow> machine \<times> float64 \<times> error option" where
  "Distance E m s a b =
     (case (nativeHandle m a, nativeHandle m b) of
        (Some ha, Some hb) \<Rightarrow>
          (case s_context (services m s) of
             None \<Rightarrow> (m, 0, Some ContextNotInitialized)
           | Some c \<Rightarrow>
               (let m1 = call (Call_GEOSDistance_r c ha hb) m
                in (case GEOSDistance_r E (calls m) c ha hb of
                      (result, distance) \<Rightarrow>
                        (if result = 0 then (m1, 0, Some DistanceFailed)
                         else (m1, distance, None)))))
      | _ \<Rightarrow> (m, 0, Some InvalidGeometry))"

definition Buffer ::
  "engine \<Rightarrow> machine \<Rightarrow> sref \<Rightarrow> gref option \<Rightarrow> float64 \<Rightarrow> machine \<times> gref option \<times> error option" where
  "Buffer E m s g radius =
     (case nativeHandle m g of
        None \<Rightarrow> (m, None, Some InvalidGeometry)
      | Some h \<Rightarrow>
          (case s_context (services m s) of
             None \<Rightarrow> (m, None, Some ContextNotInitialized)
           | Some c \<Rightarrow>
               (let m1 = call (Call_GEOSBuffer_r c h radius 8) m
                in (case GEOSBuffer_r E (calls m) c h radius 8 of
                      None \<Rightarrow> (m1, None, Some BufferFailed)
                    | Some buffered \<Rightarrow>
                        (case newGeometry m1 s (Some buffered) of (m2, r) \<Rightarrow> (m2, r, None))))))"

definition Simplify ::
  "engine \<Rightarrow> machine \<Rightarrow> sref \<Rightarrow> gref option \<Rightarrow> float64 \<Rightarrow> machine \<times> gref option \<times> error option" where
  "Simplify E m s g tolerance =
     (case nativeHandle m g of
        None \<Rightarrow> (m, None, Some InvalidGeometry)
      | Some h \<Rightarrow>
          (case s_context (services m s) of
             None \<Rightarrow> (m, None, Some ContextNotInitialized)
           | Some c \<Rightarrow>
               (let m1 = call (Call_GEOSSimplify_r c h tolerance) m
                in (case GEOSSimplify_r E (calls m) c h tolerance of
                      None \<Rightarrow> (m1, None, Some SimplifyFailed)
                    | Some simplified \<Rightarrow>
                        (case newGeometry m1 s (Some simplified) of (m2, r) \<Rightarrow> (m2, r, None))))))"

definition Difference ::
  "engine \<Rightarrow> machine \<Rightarrow> sref \<Rightarrow> gref option \<Rightarrow> gref option \<Rightarrow> machine \<times> gref option \<times> error option" where
  "Difference E m s a b =
     (case (nativeHandle m a, nativeHandle m b) of
        (Some ha, Some hb) \<Rightarrow>
          (case s_context (services m s) of
             None \<Rightarrow> (m, None, Some ContextNotInitialized)
           | Some c \<Rightarrow>
               (let m1 = call (Call_GEOSDifference_r c ha hb) m
                in (case GEOSDifference_r E (calls m) c ha hb of
                      None \<Rightarrow> (m1, None, Some DifferenceFailed)
                    | Some diff \<Rightarrow>
                        (case newGeometry m1 s (Some diff) of (m2, r) \<Rightarrow> (m2, r, None)))))
      | _ \<Rightarrow> (m, None, Some InvalidGeometry))"

section \<open>Union\<close>

text \<open>
  A method either returns or panics. Union is the one operation that can panic: it
  reads \<open>result.geom\<close> without testing \<open>result\<close>, which is \<open>geometries[0]\<close> at first.
\<close>

datatype 'a outcome = Returns 'a | Panics

text \<open>
  The loop \<open>for i := 1; i < len(geometries); i++\<close>, on the elements from index 1 on.
  The context is read under the read lock and is the same in every round.
\<close>

fun UnionLoop ::
  "engine \<Rightarrow> sref \<Rightarrow> ctx \<Rightarrow> machine \<Rightarrow> gref option \<Rightarrow> gref option list \<Rightarrow>
   machine \<times> (gref option \<times> error option) outcome" where
  "UnionLoop E s c m result [] = (m, Returns (result, None))"
| "UnionLoop E s c m result (g # rest) =
     (case nativeHandle m g of
        None \<Rightarrow> UnionLoop E s c m result rest
      | Some h \<Rightarrow>
          (case result of
             None \<Rightarrow> (m, Panics)
           | Some r \<Rightarrow>
               (let rh = geom (geometries m r);
                    m1 = call (Call_GEOSUnion_r c rh h) m
                in (case GEOSUnion_r E (calls m) c rh h of
                      None \<Rightarrow> (m1, Returns (None, Some UnionFailed))
                    | Some union' \<Rightarrow>
                        (case newGeometry m1 s (Some union') of
                           (m2, result') \<Rightarrow> UnionLoop E s c m2 result' rest)))))"

definition Union_geometries ::
  "engine \<Rightarrow> machine \<Rightarrow> sref \<Rightarrow> gref option list \<Rightarrow>
   machine \<times> (gref option \<times> error option) outcome" where
  "Union_geometries E m s gs =
     (if length gs = 0 then (m, Returns (None, Some NoGeometries))
      else if length gs = 1 then (m, Returns (gs ! 0, None))
      else
        (case s_context (services m s) of
           None \<Rightarrow> (m, Returns (None, Some ContextNotInitialized))
         | Some c \<Rightarrow> UnionLoop E s c m (gs ! 0) (drop 1 gs)))"

section \<open>Sample values\<close>

text \<open>
  Concrete values at which the theorems below are instantiated: a machine on which
  nothing has run yet, a C library that accepts every request and hands out a fresh
  handle for each, one that finds every parsed geometry invalid, and a rendering of \<open>%f\<close>
  that is right on the bit patterns of 0.0 and 1.0.
\<close>

definition machine0 :: machine where
  "machine0 =
     \<lparr>services = (\<lambda>a. \<lparr>s_context = None, s_finalizer = False\<rparr>),
      geometries = (\<lambda>a. \<lparr>geom = None, service = None, g_finalizer = False\<rparr>),
      next_service = 0, next_geometry = 0, calls = []\<rparr>"

definition engine0 :: engine where
  "engine0 =
     \<lparr>GEOS_init_r = (\<lambda>cs. Some (length cs)),
      GEOSGeomFromWKT_r = (\<lambda>cs c w. Some (length cs)),
      GEOSisValid_r = (\<lambda>cs c h. 1),
      GEOSGeomToWKT_r = (\<lambda>cs c h. Some ''POINT (1 1)''),
      GEOSWithin_r = (\<lambda>cs c a b. 1),
      GEOSIntersects_r = (\<lambda>cs c a b. 1),
      GEOSDistance_r = (\<lambda>cs c a b. (1, 0)),
      GEOSBuffer_r = (\<lambda>cs c h r q. Some (length cs)),
      GEOSSimplify_r = (\<lambda>cs c h t. Some (length cs)),
      GEOSUnion_r = (\<lambda>cs c a b. Some (length cs)),
      GEOSDifference_r = (\<lambda>cs c a b. Some (length cs))\<rparr>"

definition engine_invalid :: engine where
  "engine_invalid = engine0\<lparr>GEOSisValid_r := (\<lambda>cs c h. 0)\<rparr>"

definition fmt_f :: "float64 \<Rightarrow> string" where
  "fmt_f x = (if x = 0 then ''0.000000'' else ''1.000000'')"

definition one_f :: float64 where
  "one_f = 0x3FF0000000000000"

definition input_point :: GeometryInput where
  "input_point = \<lparr>WKT = ''POINT(1 1)'', GeoJSON = None, SRID = 0\<rparr>"

definition input_empty :: GeometryInput where
  "input_empty = \<lparr>WKT = [], GeoJSON = None, SRID = 0\<rparr>"

text \<open>
  The machine after \<open>NewService\<close> (the service is at address 0, its context is 0);
  after one geometry has been parsed (at address 0, with handle 1); after a second one
  has been parsed (at address 1, with handle 3); and after that second one has been
  destroyed.
\<close>

definition machine1 :: machine where
  "machine1 = fst (NewService engine0 machine0)"

definition machine2 :: machine where
  "machine2 = fst (ParseGeometry engine0 fmt_f machine1 0 input_point)"

definition machine3 :: machine where
  "machine3 = fst (ParseGeometry engine0 fmt_f machine2 0 input_point)"

definition machine4 :: machine where
  "machine4 = destroy machine3 1"

section \<open>Pointers to allocated objects\<close>

text \<open>
  A pointer held by the program is nil or the address of a \<open>Geometry\<close> that has been
  allocated, which is an address below the next free one.
\<close>

definition allocated :: "machine \<Rightarrow> gref option \<Rightarrow> bool" where
  "allocated m g = (case g of None \<Rightarrow> True | Some a \<Rightarrow> a < next_geometry m)"

section \<open>The sample machines, evaluated\<close>

lemma machine1_eq:
  "machine1 =
     \<lparr>services = (\<lambda>a. \<lparr>s_context = None, s_finalizer = False\<rparr>)
                   (0 := \<lparr>s_context = Some 0, s_finalizer = True\<rparr>),
      geometries = (\<lambda>a. \<lparr>geom = None, service = None, g_finalizer = False\<rparr>),
      next_service = Suc 0, next_geometry = 0, calls = [Call_GEOS_init_r]\<rparr>"
  by (simp add: machine1_def NewService_def engine0_def machine0_def call_def Let_def)

lemma machine2_eq:
  "machine2 =
     \<lparr>services = (\<lambda>a. \<lparr>s_context = None, s_finalizer = False\<rparr>)
                   (0 := \<lparr>s_context = Some 0, s_finalizer = True\<rparr>),
      geometries = (\<lambda>a. \<lparr>geom = None, service = None, g_finalizer = False\<rparr>)
                   (0 := \<lparr>geom = Some 1, service = Some 0, g_finalizer = True\<rparr>),
      next_service = Suc 0, next_geometry = Suc 0,
      calls = [Call_GEOS_init_r, Call_GEOSGeomFromWKT_r 0 ''POINT(1 1)'', Call_GEOSisValid_r 0 1]\<rparr>"
  by (simp add: machine2_def machine1_eq ParseGeometry_def inputWKT_def input_point_def
        engine0_def call_def Let_def newGeometry_def)

lemma machine3_eq:
  "machine3 =
     \<lparr>services = (\<lambda>a. \<lparr>s_context = None, s_finalizer = False\<rparr>)
                   (0 := \<lparr>s_context = Some 0, s_finalizer = True\<rparr>),
      geometries = (\<lambda>a. \<lparr>geom = None, service = None, g_finalizer = False\<rparr>)
                   (0 := \<lparr>geom = Some 1, service = Some 0, g_finalizer = True\<rparr>,
                    Suc 0 := \<lparr>geom = Some 3, service = Some 0, g_finalizer = True\<rparr>),
      next_service = Suc 0, next_geometry = Suc (Suc 0),
      calls = [Call_GEOS_init_r, Call_GEOSGeomFromWKT_r 0 ''POINT(1 1)'', Call_GEOSisValid_r 0 1,
               Call_GEOSGeomFromWKT_r 0 ''POINT(1 1)'', Call_GEOSisValid_r 0 3]\<rparr>"
  by (simp add: machine3_def machine2_eq ParseGeometry_def inputWKT_def input_point_def
        engine0_def call_def Let_def newGeometry_def eval_nat_numeral)

lemma machine4_eq:
  "machine4 =
     \<lparr>services = (\<lambda>a. \<lparr>s_context = None, s_finalizer = False\<rparr>)
                   (0 := \<lparr>s_context = Some 0, s_finalizer = True\<rparr>),
      geometries = (\<lambda>a. \<lparr>geom = None, service = None, g_finalizer = False\<rparr>)
                   (0 := \<lparr>geom = Some 1, service = Some 0, g_finalizer = True\<rparr>,
                    Suc 0 := \<lparr>geom = None, service = Some 0, g_finalizer = False\<rparr>),
      next_service = Suc 0, next_geometry = Suc (Suc 0),
      calls = [Call_GEOS_init_r, Call_GEOSGeomFromWKT_r 0 ''POINT(1 1)'', Call_GEOSisValid_r 0 1,
               Call_GEOSGeomFromWKT_r 0 ''POINT(1 1)'', Call_GEOSisValid_r 0 3,
               Call_GEOSGeom_destroy_r 0 3]\<rparr>"
  by (simp add: machine4_def machine3_eq destroy_def call_def Let_def eval_nat_numeral)

section \<open>Close and destroy\<close>

lemma Close_context: "s_context (services (Close m s) s) = None"
  by (simp add: Close_def call_def Let_def split: option.split)

lemma Close_geometries:
  "geometries (Close m s) = geometries m \<and> next_geometry (Close m s) = next_geometry m"
  by (simp add: Close_def call_def Let_def split: option.split)

lemma Close_machine2:
  "Close machine2 0 =
     machine2\<lparr>calls := calls machine2 @ [Call_GEOS_finish_r 0],
              services := (services machine2)(0 := \<lparr>s_context = None, s_finalizer = False\<rparr>)\<rparr>"
  by (simp add: Close_def call_def Let_def machine2_eq)

text \<open>
  Claim C4. \<open>Close\<close> is idempotent. A second \<open>Close\<close> right after the first leaves the
  whole state as it is, so it makes no call of \<open>GEOS_finish_r\<close>; \<open>Close\<close> has no error
  result. The first \<open>Close\<close> calls \<open>GEOS_finish_r\<close> on the context exactly when the
  context is not nil, makes no call otherwise, and the context is nil afterwards.
\<close>

theorem Close_idempotent:
  "Close (Close m s) s = Close m s
   \<and> calls (Close (Close m s) s) = calls (Close m s)
   \<and> calls (Close m s) =
       (case s_context (services m s) of
          Some c \<Rightarrow> calls m @ [Call_GEOS_finish_r c]
        | None \<Rightarrow> calls m)
   \<and> s_context (services (Close m s) s) = None"
  by (simp add: Close_def call_def Let_def split: option.split)

text \<open>C4 on the sample service: one call of \<open>GEOS_finish_r\<close> in two calls of \<open>Close\<close>.\<close>

theorem Close_idempotent_witness:
  "Close (Close machine2 0) 0 = Close machine2 0
   \<and> calls (Close (Close machine2 0) 0) =
       [Call_GEOS_init_r, Call_GEOSGeomFromWKT_r 0 ''POINT(1 1)'', Call_GEOSisValid_r 0 1,
        Call_GEOS_finish_r 0]
   \<and> s_context (services (Close machine2 0) 0) = None"
  using Close_idempotent [of machine2 0] by (simp add: machine2_eq)

text \<open>
  Claim C5. Running \<open>destroy\<close> twice on a \<open>Geometry\<close> gives the state that running it
  once gives: the second run makes no call of \<open>GEOSGeom_destroy_r\<close>, and \<open>destroy\<close> has
  no error result.
\<close>

theorem destroy_idempotent:
  "destroy (destroy m g) g = destroy m g
   \<and> calls (destroy (destroy m g) g) = calls (destroy m g)"
  by (simp add: destroy_def call_def Let_def split: option.split)

text \<open>C5 on the sample geometry: one call of \<open>GEOSGeom_destroy_r\<close> in two runs.\<close>

theorem destroy_idempotent_witness:
  "destroy (destroy machine2 0) 0 = destroy machine2 0
   \<and> calls (destroy (destroy machine2 0) 0) =
       [Call_GEOS_init_r, Call_GEOSGeomFromWKT_r 0 ''POINT(1 1)'', Call_GEOSisValid_r 0 1,
        Call_GEOSGeom_destroy_r 0 1]"
  using destroy_idempotent [of machine2 0]
  by (simp add: machine2_eq destroy_def call_def Let_def)

text \<open>
  Claim C3, as the code has it. After \<open>destroy\<close> the finalizer of the \<open>Geometry\<close> is
  removed, whatever the state was. When the handle is not nil and the context of the
  owning service is live, \<open>GEOSGeom_destroy_r\<close> is called on the handle and the handle
  field is nil afterwards. When the owning service has been closed, no call is made and
  the handle field keeps its value.
\<close>

theorem destroy_effect:
  "g_finalizer (geometries (destroy m g) g) = False
   \<and> (geom (geometries m g) = Some h \<and> service (geometries m g) = Some s
        \<and> s_context (services m s) = Some c \<longrightarrow>
      geom (geometries (destroy m g) g) = None
      \<and> calls (destroy m g) = calls m @ [Call_GEOSGeom_destroy_r c h])
   \<and> (service (geometries m g) = Some s \<and> s_context (services m s) = None \<longrightarrow>
      geom (geometries (destroy m g) g) = geom (geometries m g)
      \<and> calls (destroy m g) = calls m)"
  by (simp add: destroy_def call_def Let_def split: option.split)

text \<open>
  C3 on the sample geometry, whose service is live in \<open>machine2\<close> and closed in
  \<open>Close machine2 0\<close>.
\<close>

theorem destroy_effect_witness:
  "geom (geometries machine2 0) = Some 1 \<and> service (geometries machine2 0) = Some 0
   \<and> s_context (services machine2 0) = Some 0
   \<and> g_finalizer (geometries (destroy machine2 0) 0) = False
   \<and> geom (geometries (destroy machine2 0) 0) = None
   \<and> calls (destroy machine2 0) = calls machine2 @ [Call_GEOSGeom_destroy_r 0 1]
   \<and> service (geometries (Close machine2 0) 0) = Some 0
   \<and> s_context (services (Close machine2 0) 0) = None
   \<and> g_finalizer (geometries (destroy (Close machine2 0) 0) 0) = False
   \<and> geom (geometries (destroy (Close machine2 0) 0) 0) = geom (geometries (Close machine2 0) 0)
   \<and> calls (destroy (Close machine2 0) 0) = calls (Close machine2 0)"
  using destroy_effect [of machine2 0 1 0 0] destroy_effect [of "Close machine2 0" 0 1 0 0]
  by (simp add: Close_machine2) (simp add: machine2_eq)

text \<open>
  C3 as the claim has it fails when the service has been closed first: the geometry
  parsed in \<open>machine2\<close> still holds its handle 1 after \<open>Close\<close> and \<open>destroy\<close>.
\<close>

theorem destroy_after_Close_counterexample:
  "geom (geometries (destroy (Close machine2 0) 0) 0) = Some 1
   \<and> geom (geometries (destroy (Close machine2 0) 0) 0) \<noteq> None"
  by (simp add: Close_machine2 destroy_def Let_def) (simp add: machine2_eq)

section \<open>Union of no geometry and of one\<close>

text \<open>
  Claim C6. \<open>Union\<close> of a list of one element returns that very pointer and no error,
  and leaves the state as it is: no call into the C library, no new \<open>Geometry\<close>.
  \<open>Union\<close> of the empty list returns the error "no geometries provided".
\<close>

theorem Union_one_and_none:
  "Union_geometries E m s [g] = (m, Returns (g, None))
   \<and> Union_geometries E m s [] = (m, Returns (None, Some NoGeometries))
   \<and> Error NoGeometries = ''no geometries provided''"
  by (simp add: Union_geometries_def)

text \<open>C6 on the sample geometry.\<close>

theorem Union_one_and_none_witness:
  "Union_geometries engine0 machine2 0 [Some 0] = (machine2, Returns (Some 0, None))
   \<and> Union_geometries engine0 machine2 0 [] = (machine2, Returns (None, Some NoGeometries))"
  using Union_one_and_none [of engine0 machine2 0 "Some 0"] by simp

section \<open>Operations on a service without a context\<close>

lemma closed_ParseGeometry:
  "s_context (services m s) = None \<Longrightarrow>
   ParseGeometry E F m s input = (m, None, Some ContextNotInitialized)"
  by (simp add: ParseGeometry_def)

lemma closed_ToWKT:
  "s_context (services m s) = None \<Longrightarrow>
   ToWKT E m s g =
     (m, [], Some (if nativeHandle m g = None then InvalidGeometry else ContextNotInitialized))"
  by (simp add: ToWKT_def split: option.split)

lemma closed_Within:
  "s_context (services m s) = None \<Longrightarrow>
   Within E m s a b =
     (m, False, Some (if nativeHandle m a = None \<or> nativeHandle m b = None
                      then InvalidGeometry else ContextNotInitialized))"
  by (simp add: Within_def split: option.split)

lemma closed_Intersects:
  "s_context (services m s) = None \<Longrightarrow>
   Intersects E m s a b =
     (m, False, Some (if nativeHandle m a = None \<or> nativeHandle m b = None
                      then InvalidGeometry else ContextNotInitialized))"
  by (simp add: Intersects_def split: option.split)

lemma closed_Distance:
  "s_context (services m s) = None \<Longrightarrow>
   Distance E m s a b =
     (m, 0, Some (if nativeHandle m a = None \<or> nativeHandle m b = None
                  then InvalidGeometry else ContextNotInitialized))"
  by (simp add: Distance_def split: option.split)

lemma closed_Buffer:
  "s_context (services m s) = None \<Longrightarrow>
   Buffer E m s g radius =
     (m, None, Some (if nativeHandle m g = None then InvalidGeometry else ContextNotInitialized))"
  by (simp add: Buffer_def split: option.split)

lemma closed_Simplify:
  "s_context (services m s) = None \<Longrightarrow>
   Simplify E m s g tolerance =
     (m, None, Some (if nativeHandle m g = None then InvalidGeometry else ContextNotInitialized))"
  by (simp add: Simplify_def split: option.split)

lemma closed_Difference:
  "s_context (services m s) = None \<Longrightarrow>
   Difference E m s a b =
     (m, None, Some (if nativeHandle m a = None \<or> nativeHandle m b = None
                     then InvalidGeometry else ContextNotInitialized))"
  by (simp add: Difference_def split: option.split)

lemma closed_Union:
  "s_context (services m s) = None \<Longrightarrow>
   Union_geometries E m s gs =
     (m, Returns (if length gs = 0 then (None, Some NoGeometries)
                  else if length gs = 1 then (gs ! 0, None)
                  else (None, Some ContextNotInitialized)))"
  by (simp add: Union_geometries_def)

text \<open>
  Claim C1, as the code has it. After \<open>Close\<close>, every public operation returns with
  the state as \<open>Close\<close> left it, so none calls into the C library. \<open>ParseGeometry\<close>
  returns the error "GEOS context is not initialized" on every input. \<open>ToWKT\<close>,
  \<open>Within\<close>, \<open>Intersects\<close>, \<open>Distance\<close>, \<open>Buffer\<close>, \<open>Simplify\<close> and \<open>Difference\<close>
  test their operands first: they return "invalid geometry" when an operand is nil or
  has a nil handle, and "GEOS context is not initialized" otherwise. \<open>Union\<close> returns
  "GEOS context is not initialized" on a list of two elements or more, "no geometries
  provided" on the empty list, and the element itself, without an error, on a list of
  one element.
\<close>

theorem operations_after_Close:
  assumes "m' = Close m s"
  shows
    "ParseGeometry E F m' s input = (m', None, Some ContextNotInitialized)
     \<and> ToWKT E m' s g =
         (m', [], Some (if nativeHandle m' g = None
                        then InvalidGeometry else ContextNotInitialized))
     \<and> Within E m' s a b =
         (m', False, Some (if nativeHandle m' a = None \<or> nativeHandle m' b = None
                           then InvalidGeometry else ContextNotInitialized))
     \<and> Intersects E m' s a b =
         (m', False, Some (if nativeHandle m' a = None \<or> nativeHandle m' b = None
                           then InvalidGeometry else ContextNotInitialized))
     \<and> Distance E m' s a b =
         (m', 0, Some (if nativeHandle m' a = None \<or> nativeHandle m' b = None
                       then InvalidGeometry else ContextNotInitialized))
     \<and> Buffer E m' s g radius =
         (m', None, Some (if nativeHandle m' g = None
                          then InvalidGeometry else ContextNotInitialized))
     \<and> Simplify E m' s g tolerance =
         (m', None, Some (if nativeHandle m' g = None
                          then InvalidGeometry else ContextNotInitialized))
     \<and> Difference E m' s a b =
         (m', None, Some (if nativeHandle m' a = None \<or> nativeHandle m' b = None
                          then InvalidGeometry else ContextNotInitialized))
     \<and> Union_geometries E m' s gs =
         (m', Returns (if length gs = 0 then (None, Some NoGeometries)
                       else if length gs = 1 then (gs ! 0, None)
                       else (None, Some ContextNotInitialized)))
     \<and> Error ContextNotInitialized = ''GEOS context is not initialized''"
proof -
  have closed: "s_context (services m' s) = None"
    using assms by (simp add: Close_context)
  show ?thesis
    by (simp only: closed_ParseGeometry [OF closed] closed_ToWKT [OF closed]
          closed_Within [OF closed] closed_Intersects [OF closed] closed_Distance [OF closed]
          closed_Buffer [OF closed] closed_Simplify [OF closed] closed_Difference [OF closed]
          closed_Union [OF closed] Error.simps simp_thms)
qed

text \<open>
  C1 on the sample service after \<open>Close\<close>, with the geometry parsed before as the
  operand, and a list of two for \<open>Union\<close>.
\<close>

theorem operations_after_Close_witness:
  "ParseGeometry engine0 fmt_f (Close machine2 0) 0 input_point =
     (Close machine2 0, None, Some ContextNotInitialized)
   \<and> ToWKT engine0 (Close machine2 0) 0 (Some 0) =
     (Close machine2 0, [], Some ContextNotInitialized)
   \<and> Within engine0 (Close machine2 0) 0 (Some 0) (Some 0) =
     (Close machine2 0, False, Some ContextNotInitialized)
   \<and> Intersects engine0 (Close machine2 0) 0 (Some 0) (Some 0) =
     (Close machine2 0, False, Some ContextNotInitialized)
   \<and> Distance engine0 (Close machine2 0) 0 (Some 0) (Some 0) =
     (Close machine2 0, 0, Some ContextNotInitialized)
   \<and> Buffer engine0 (Close machine2 0) 0 (Some 0) one_f =
     (Close machine2 0, None, Some ContextNotInitialized)
   \<and> Simplify engine0 (Close machine2 0) 0 (Some 0) one_f =
     (Close machine2 0, None, Some ContextNotInitialized)
   \<and> Difference engine0 (Close machine2 0) 0 (Some 0) (Some 0) =
     (Close machine2 0, None, Some ContextNotInitialized)
   \<and> Union_geometries engine0 (Close machine2 0) 0 [Some 0, Some 0] =
     (Close machine2 0, Returns (None, Some ContextNotInitialized))"
proof -
  have h: "nativeHandle (Close machine2 0) (Some 0) = Some 1"
    by (simp add: nativeHandle_def Close_geometries machine2_eq)
  show ?thesis
    using operations_after_Close [of "Close machine2 0" machine2 0 engine0 fmt_f input_point
        "Some 0" "Some 0" "Some 0" one_f one_f "[Some 0, Some 0]"]
    by (simp add: h)
qed

text \<open>
  C1 as the claim has it fails: after \<open>Close\<close>, \<open>ToWKT\<close> of a nil pointer returns
  "invalid geometry", and \<open>Union\<close> of a list of one element returns no error.
\<close>

theorem operations_after_Close_counterexample:
  "snd (snd (ToWKT engine0 (Close machine2 0) 0 None)) = Some InvalidGeometry
   \<and> snd (snd (ToWKT engine0 (Close machine2 0) 0 None)) \<noteq> Some ContextNotInitialized
   \<and> snd (Union_geometries engine0 (Close machine2 0) 0 [Some 0]) = Returns (Some 0, None)"
  by (simp add: ToWKT_def nativeHandle_def Union_geometries_def)

section \<open>Operands that are nil or hold a nil handle\<close>

lemma allocated_call: "allocated (call c m) a = allocated m a"
  by (cases a) (simp_all add: allocated_def call_def)

lemma nativeHandle_call: "nativeHandle (call c m) a = nativeHandle m a"
  by (cases a) (simp_all add: nativeHandle_def call_def)

text \<open>A new \<open>Geometry\<close> is put at a fresh address: the allocated ones stay as they are.\<close>

lemma allocated_newGeometry:
  "allocated m a \<Longrightarrow> newGeometry m s (Some u) = (m2, r) \<Longrightarrow>
   allocated m2 a \<and> nativeHandle m2 a = nativeHandle m a"
  by (auto simp add: allocated_def newGeometry_def nativeHandle_def Let_def split: option.splits)

text \<open>
  The loop of \<open>Union\<close> passes over an element that is nil or holds a nil handle,
  wherever it stands: by induction on the elements before it, for every state and every
  intermediate result, since each round may change both.
\<close>

lemma UnionLoop_skip:
  "nativeHandle m a = None \<Longrightarrow> allocated m a \<Longrightarrow>
   UnionLoop E s c m r (pre @ a # post) = UnionLoop E s c m r (pre @ post)"
proof (induction pre arbitrary: m r)
  case Nil
  then show ?case by simp
next
  case (Cons g pre)
  show ?case
  proof (cases "nativeHandle m g")
    case None
    with Cons show ?thesis by simp
  next
    case (Some h)
    note g = this
    show ?thesis
    proof (cases r)
      case None
      with g show ?thesis by simp
    next
      case (Some x)
      note r = this
      let ?m1 = "call (Call_GEOSUnion_r c (geom (geometries m x)) h) m"
      show ?thesis
      proof (cases "GEOSUnion_r E (calls m) c (geom (geometries m x)) h")
        case None
        with g r show ?thesis by (simp add: Let_def)
      next
        case (Some u)
        obtain m2 r' where ng: "newGeometry ?m1 s (Some u) = (m2, r')"
          by (cases "newGeometry ?m1 s (Some u)")
        from Cons.prems have "allocated m2 a \<and> nativeHandle m2 a = None"
          using allocated_newGeometry [OF _ ng, of a]
          by (simp add: allocated_call nativeHandle_call)
        then have "UnionLoop E s c m2 r' (pre @ a # post) = UnionLoop E s c m2 r' (pre @ post)"
          using Cons.IH by simp
        with g r Some ng show ?thesis by (simp add: Let_def)
      qed
    qed
  qed
qed

lemma Union_skip:
  assumes "s_context (services m s) = Some c" and "nativeHandle m a = None" and "allocated m a"
  shows "Union_geometries E m s (g # pre @ a # post) = Union_geometries E m s (g # pre @ post)"
proof (cases "pre @ post")
  case Nil
  with assms show ?thesis by (simp add: Union_geometries_def)
next
  case (Cons x xs)
  with assms show ?thesis
    using UnionLoop_skip [of m a E s c g pre post] by (simp add: Union_geometries_def)
qed

lemma null_ToWKT:
  "nativeHandle m a = None \<Longrightarrow> ToWKT E m s a = (m, [], Some InvalidGeometry)"
  by (simp add: ToWKT_def)

lemma null_Within:
  "nativeHandle m a = None \<or> nativeHandle m b = None \<Longrightarrow>
   Within E m s a b = (m, False, Some InvalidGeometry)"
  by (auto simp add: Within_def split: option.split)

lemma null_Intersects:
  "nativeHandle m a = None \<or> nativeHandle m b = None \<Longrightarrow>
   Intersects E m s a b = (m, False, Some InvalidGeometry)"
  by (auto simp add: Intersects_def split: option.split)

lemma null_Distance:
  "nativeHandle m a = None \<or> nativeHandle m b = None \<Longrightarrow>
   Distance E m s a b = (m, 0, Some InvalidGeometry)"
  by (auto simp add: Distance_def split: option.split)

lemma null_Buffer:
  "nativeHandle m a = None \<Longrightarrow> Buffer E m s a radius = (m, None, Some InvalidGeometry)"
  by (simp add: Buffer_def)

lemma null_Simplify:
  "nativeHandle m a = None \<Longrightarrow> Simplify E m s a tolerance = (m, None, Some InvalidGeometry)"
  by (simp add: Simplify_def)

lemma null_Difference:
  "nativeHandle m a = None \<or> nativeHandle m b = None \<Longrightarrow>
   Difference E m s a b = (m, None, Some InvalidGeometry)"
  by (auto simp add: Difference_def split: option.split)

text \<open>
  Claim C2, as the code has it. Let the operand \<open>a\<close> be nil or hold a nil handle.
  \<open>ToWKT\<close>, \<open>Within\<close>, \<open>Intersects\<close>, \<open>Distance\<close>, \<open>Buffer\<close>, \<open>Simplify\<close> and
  \<open>Difference\<close>, with \<open>a\<close> as any of their operands, return the error "invalid
  geometry" and leave the state as it is, so they make no call into the C library.
  \<open>Union\<close> does not reject \<open>a\<close>: on a service with a live context, \<open>a\<close> anywhere
  after the first element is passed over, and the outcome and the state are those of the
  list without it.
\<close>

theorem nil_operands:
  assumes "nativeHandle m a = None"
  shows
    "ToWKT E m s a = (m, [], Some InvalidGeometry)
     \<and> Within E m s a b = (m, False, Some InvalidGeometry)
     \<and> Within E m s b a = (m, False, Some InvalidGeometry)
     \<and> Intersects E m s a b = (m, False, Some InvalidGeometry)
     \<and> Intersects E m s b a = (m, False, Some InvalidGeometry)
     \<and> Distance E m s a b = (m, 0, Some InvalidGeometry)
     \<and> Distance E m s b a = (m, 0, Some InvalidGeometry)
     \<and> Buffer E m s a radius = (m, None, Some InvalidGeometry)
     \<and> Simplify E m s a tolerance = (m, None, Some InvalidGeometry)
     \<and> Difference E m s a b = (m, None, Some InvalidGeometry)
     \<and> Difference E m s b a = (m, None, Some InvalidGeometry)
     \<and> Error InvalidGeometry = ''invalid geometry''
     \<and> (s_context (services m s) \<noteq> None \<and> allocated m a \<longrightarrow>
          Union_geometries E m s (g # pre @ a # post) = Union_geometries E m s (g # pre @ post))"
  using assms
  by (auto simp add: null_ToWKT null_Within null_Intersects null_Distance null_Buffer
        null_Simplify null_Difference intro: Union_skip)

text \<open>
  C2 in \<open>machine4\<close>, where the geometry at address 1 has been destroyed and holds a
  nil handle, and the geometry at address 0 holds handle 1.
\<close>

theorem nil_operands_witness:
  "nativeHandle machine4 (Some 1) = None
   \<and> nativeHandle machine4 (Some 0) = Some 1
   \<and> ToWKT engine0 machine4 0 (Some 1) = (machine4, [], Some InvalidGeometry)
   \<and> Within engine0 machine4 0 (Some 1) (Some 0) = (machine4, False, Some InvalidGeometry)
   \<and> Within engine0 machine4 0 (Some 0) (Some 1) = (machine4, False, Some InvalidGeometry)
   \<and> Intersects engine0 machine4 0 (Some 0) (Some 1) = (machine4, False, Some InvalidGeometry)
   \<and> Distance engine0 machine4 0 (Some 0) (Some 1) = (machine4, 0, Some InvalidGeometry)
   \<and> Buffer engine0 machine4 0 (Some 1) one_f = (machine4, None, Some InvalidGeometry)
   \<and> Simplify engine0 machine4 0 (Some 1) one_f = (machine4, None, Some InvalidGeometry)
   \<and> Difference engine0 machine4 0 (Some 0) (Some 1) = (machine4, None, Some InvalidGeometry)
   \<and> s_context (services machine4 0) \<noteq> None
   \<and> allocated machine4 (Some 1)
   \<and> Union_geometries engine0 machine4 0 [Some 0, Some 1] =
       Union_geometries engine0 machine4 0 [Some 0]"
proof -
  have h: "nativeHandle machine4 (Some 1) = None" "nativeHandle machine4 (Some 0) = Some 1"
    "s_context (services machine4 0) \<noteq> None" "allocated machine4 (Some 1)"
    by (simp_all add: nativeHandle_def allocated_def machine4_eq)
  show ?thesis
    using nil_operands [OF h(1), of engine0 0 "Some 0" one_f one_f "Some 0" "[]" "[]"] h
    by simp
qed

text \<open>
  C2 as the claim has it fails for \<open>Union\<close>: on the live sample service, the list of
  the parsed geometry and a nil pointer gives the parsed geometry and no error.
\<close>

theorem Union_nil_element_counterexample:
  "Union_geometries engine0 machine2 0 [Some 0, None] = (machine2, Returns (Some 0, None))
   \<and> snd (Union_geometries engine0 machine2 0 [Some 0, None])
       \<noteq> Returns (None, Some InvalidGeometry)"
  by (simp add: Union_geometries_def nativeHandle_def machine2_eq)

section \<open>ParseGeometry on empty input and on invalid geometries\<close>

text \<open>
  The text chosen by ParseGeometry is never empty: it is the non-empty \<open>WKT\<close> field
  or starts with the keyword that geoJSONToWKT writes. The test \<open>len(wkt) == 0\<close> is
  therefore never true.
\<close>

lemma inputWKT_nonempty: "inputWKT F input \<noteq> Inr []"
  by (auto simp add: inputWKT_def geoJSONToWKT_def
      split: option.splits goval.splits if_splits prod.splits)

text \<open>
  Claim C7. On a service with a live context: when \<open>GEOSGeomFromWKT_r\<close> returns a
  handle for the chosen text and \<open>GEOSisValid_r\<close> then answers 0 for that handle,
  ParseGeometry calls \<open>GEOSGeom_destroy_r\<close> on the handle as its last call and
  returns nil with the error "invalid geometry: ..."; nothing but the record of calls
  changes, so no \<open>Geometry\<close> is created. When the input has neither text nor GeoJSON,
  ParseGeometry returns the error "no geometry provided: ..." and the state is as
  before, so no call into the C library is made.
\<close>

theorem ParseGeometry_invalid_or_empty:
  "(s_context (services m s) = Some c \<and> inputWKT F input = Inr wkt
      \<and> GEOSGeomFromWKT_r E (calls m) c wkt = Some h
      \<and> GEOSisValid_r E (calls m @ [Call_GEOSGeomFromWKT_r c wkt]) c h = 0 \<longrightarrow>
    ParseGeometry E F m s input =
      (m\<lparr>calls := calls m @ [Call_GEOSGeomFromWKT_r c wkt, Call_GEOSisValid_r c h,
                              Call_GEOSGeom_destroy_r c h]\<rparr>,
       None, Some (InvalidGeometryWKT wkt))
    \<and> Error (InvalidGeometryWKT wkt) = ''invalid geometry: '' @ wkt)
   \<and> (s_context (services m s) = Some c \<and> WKT input = [] \<and> GeoJSON input = None \<longrightarrow>
    ParseGeometry E F m s input = (m, None, Some NoGeometryProvided))"
  using inputWKT_nonempty [of F input]
  by (auto simp add: ParseGeometry_def call_def Let_def inputWKT_def)

text \<open>
  C7 on the sample service right after \<open>NewService\<close>, with a C library that finds the
  parsed point invalid, and with the empty input.
\<close>

theorem ParseGeometry_invalid_or_empty_witness:
  "s_context (services machine1 0) = Some 0
   \<and> inputWKT fmt_f input_point = Inr ''POINT(1 1)''
   \<and> GEOSGeomFromWKT_r engine_invalid (calls machine1) 0 ''POINT(1 1)'' = Some 1
   \<and> GEOSisValid_r engine_invalid
        (calls machine1 @ [Call_GEOSGeomFromWKT_r 0 ''POINT(1 1)'']) 0 1 = 0
   \<and> ParseGeometry engine_invalid fmt_f machine1 0 input_point =
       (machine1\<lparr>calls := [Call_GEOS_init_r, Call_GEOSGeomFromWKT_r 0 ''POINT(1 1)'',
                            Call_GEOSisValid_r 0 1, Call_GEOSGeom_destroy_r 0 1]\<rparr>,
        None, Some (InvalidGeometryWKT ''POINT(1 1)''))
   \<and> WKT input_empty = [] \<and> GeoJSON input_empty = None
   \<and> ParseGeometry engine_invalid fmt_f machine1 0 input_empty =
       (machine1, None, Some NoGeometryProvided)"
proof -
  have h: "s_context (services machine1 0) = Some 0"
    "inputWKT fmt_f input_point = Inr ''POINT(1 1)''"
    "GEOSGeomFromWKT_r engine_invalid (calls machine1) 0 ''POINT(1 1)'' = Some 1"
    "GEOSisValid_r engine_invalid
       (calls machine1 @ [Call_GEOSGeomFromWKT_r 0 ''POINT(1 1)'']) 0 1 = 0"
    "WKT input_empty = []" "GeoJSON input_empty = None"
    "calls machine1 = [Call_GEOS_init_r]"
    by (simp_all add: machine1_eq inputWKT_def input_point_def input_empty_def
        engine_invalid_def engine0_def)
  show ?thesis
    using ParseGeometry_invalid_or_empty
            [of machine1 0 0 fmt_f input_point "''POINT(1 1)''" engine_invalid 1]
          ParseGeometry_invalid_or_empty
            [of machine1 0 0 fmt_f input_empty "''POINT(1 1)''" engine_invalid 1]
          h
    by simp
qed

section \<open>The text that geoJSONToWKT writes\<close>

text \<open>
  The loop appends to the text, for each element in turn, nothing when the test on the
  element fails, and otherwise the two numbers, after a separator when the index of the
  element is not 0.
\<close>

lemma coordLoop_concat:
  "coordLoop F i wkt cs =
     wkt @ concat (map (\<lambda>(j, c). case coordXY c of
                                     None \<Rightarrow> []
                                   | Some (x, y) \<Rightarrow>
                                       (if 0 < j then '', '' else []) @ F x @ '' '' @ F y)
                       (enumerate i cs))"
  by (induction cs arbitrary: i wkt) (auto split: option.split)

lemma coordXY_pair: "coordXY (GoSlice [GoFloat64 x, GoFloat64 y]) = Some (x, y)"
  by (simp add: coordXY_def)

lemma coordLoop_pairs:
  "0 < i \<Longrightarrow>
   coordLoop F i wkt (map (\<lambda>(x, y). GoSlice [GoFloat64 x, GoFloat64 y]) ps) =
     wkt @ concat (map (\<lambda>(x, y). '', '' @ F x @ '' '' @ F y) ps)"
  by (induction ps arbitrary: i wkt) (auto simp add: coordXY_pair)

text \<open>
  Claim C8, as the code has it. For a LineString of at least 2 elements and for a
  Polygon whose first ring has at least 4 elements, the conversion succeeds whatever the
  elements are, and an element whose first two entries cannot be read as \<open>float64\<close>
  adds nothing to the text. For a Point whose first two entries cannot be read as
  \<open>float64\<close>, the conversion fails with the error "invalid Point coordinates".
\<close>

theorem geoJSONToWKT_omits:
  "(2 \<le> length cs \<longrightarrow>
      geoJSONToWKT F ''LineString'' (GoSlice cs) =
        (''LINESTRING('' @
           concat (map (\<lambda>(i, c). case coordXY c of
                                     None \<Rightarrow> []
                                   | Some (x, y) \<Rightarrow>
                                       (if 0 < i then '', '' else []) @ F x @ '' '' @ F y)
                       (enumerate 0 cs)) @ '')'', None))
   \<and> (4 \<le> length ring \<longrightarrow>
      geoJSONToWKT F ''Polygon'' (GoSlice (GoSlice ring # rest)) =
        (''POLYGON(('' @
           concat (map (\<lambda>(i, c). case coordXY c of
                                     None \<Rightarrow> []
                                   | Some (x, y) \<Rightarrow>
                                       (if 0 < i then '', '' else []) @ F x @ '' '' @ F y)
                       (enumerate 0 ring)) @ ''))'', None))
   \<and> (coordXY coords = None \<longrightarrow>
      geoJSONToWKT F ''Point'' coords = ([], Some InvalidPoint)
      \<and> Error InvalidPoint = ''invalid Point coordinates'')"
  by (simp add: geoJSONToWKT_def coordLoop_concat)

text \<open>
  C8 on a LineString and a ring whose element 1 is a string, and on a Point whose first
  entry is a string.
\<close>

theorem geoJSONToWKT_omits_witness:
  "2 \<le> length [GoSlice [GoFloat64 0, GoFloat64 0], GoString ''x'',
                 GoSlice [GoFloat64 one_f, GoFloat64 one_f]]
   \<and> geoJSONToWKT fmt_f ''LineString''
        (GoSlice [GoSlice [GoFloat64 0, GoFloat64 0], GoString ''x'',
                  GoSlice [GoFloat64 one_f, GoFloat64 one_f]]) =
       (''LINESTRING(0.000000 0.000000, 1.000000 1.000000)'', None)
   \<and> 4 \<le> length [GoSlice [GoFloat64 0, GoFloat64 0], GoString ''x'',
                   GoSlice [GoFloat64 one_f, GoFloat64 one_f], GoSlice [GoFloat64 0, GoFloat64 0]]
   \<and> geoJSONToWKT fmt_f ''Polygon''
        (GoSlice [GoSlice [GoSlice [GoFloat64 0, GoFloat64 0], GoString ''x'',
                           GoSlice [GoFloat64 one_f, GoFloat64 one_f],
                           GoSlice [GoFloat64 0, GoFloat64 0]]]) =
       (''POLYGON((0.000000 0.000000, 1.000000 1.000000, 0.000000 0.000000))'', None)
   \<and> coordXY (GoSlice [GoString ''x'', GoFloat64 0]) = None
   \<and> geoJSONToWKT fmt_f ''Point'' (GoSlice [GoString ''x'', GoFloat64 0]) =
       ([], Some InvalidPoint)"
  using geoJSONToWKT_omits
          [of "[GoSlice [GoFloat64 0, GoFloat64 0], GoString ''x'',
                GoSlice [GoFloat64 one_f, GoFloat64 one_f]]"
              fmt_f
              "[GoSlice [GoFloat64 0, GoFloat64 0], GoString ''x'',
                GoSlice [GoFloat64 one_f, GoFloat64 one_f], GoSlice [GoFloat64 0, GoFloat64 0]]"
              "[]"
              "GoSlice [GoString ''x'', GoFloat64 0]"]
  by (simp add: coordXY_def fmt_f_def one_f_def)

text \<open>
  C8 as the claim has it fails for a Point: the conversion of a Point whose first entry
  is a string returns an error, not a text without the coordinate.
\<close>

theorem geoJSONToWKT_Point_counterexample:
  "geoJSONToWKT fmt_f ''Point'' (GoSlice [GoString ''x'', GoFloat64 0]) =
     ([], Some InvalidPoint)"
  by (simp add: geoJSONToWKT_def coordXY_def)

text \<open>
  Claim C9, as the code has it. The conversion of a LineString succeeds on every
  sequence of at least 2 coordinate pairs and writes \<open>LINESTRING(x1 y1, x2 y2, ...)\<close>.
  On a sequence of fewer than 2 elements it fails with the error "invalid LineString
  coordinates": the layer requires 2 elements.
\<close>

theorem geoJSONToWKT_LineString:
  "geoJSONToWKT F ''LineString''
       (GoSlice (map (\<lambda>(x, y). GoSlice [GoFloat64 x, GoFloat64 y]) ((x1, y1) # p2 # ps))) =
     (''LINESTRING('' @ F x1 @ '' '' @ F y1 @
        concat (map (\<lambda>(x, y). '', '' @ F x @ '' '' @ F y) (p2 # ps)) @ '')'', None)
   \<and> (length cs < 2 \<longrightarrow>
        geoJSONToWKT F ''LineString'' (GoSlice cs) = ([], Some InvalidLineString)
        \<and> Error InvalidLineString = ''invalid LineString coordinates'')"
  using coordLoop_pairs [of "Suc 0" F "''LINESTRING('' @ F x1 @ '' '' @ F y1" "p2 # ps"]
  by (simp add: geoJSONToWKT_def coordXY_pair del: coordLoop.simps(2)) (simp add: coordXY_pair)

text \<open>C9 on a LineString of two pairs and on a LineString of one pair.\<close>

theorem geoJSONToWKT_LineString_witness:
  "geoJSONToWKT fmt_f ''LineString''
       (GoSlice [GoSlice [GoFloat64 0, GoFloat64 0], GoSlice [GoFloat64 one_f, GoFloat64 one_f]]) =
     (''LINESTRING(0.000000 0.000000, 1.000000 1.000000)'', None)
   \<and> length [GoSlice [GoFloat64 0, GoFloat64 one_f]] < 2
   \<and> geoJSONToWKT fmt_f ''LineString'' (GoSlice [GoSlice [GoFloat64 0, GoFloat64 one_f]]) =
     ([], Some InvalidLineString)"
  using geoJSONToWKT_LineString
          [of fmt_f 0 0 "(one_f, one_f)" "[]" "[GoSlice [GoFloat64 0, GoFloat64 one_f]]"]
  by (simp add: fmt_f_def one_f_def)

text \<open>
  C9 as the claim has it fails: the conversion of a LineString of one coordinate pair
  returns an error.
\<close>

theorem geoJSONToWKT_LineString_counterexample:
  "geoJSONToWKT fmt_f ''LineString'' (GoSlice [GoSlice [GoFloat64 0, GoFloat64 0]]) =
     ([], Some InvalidLineString)"
  by (simp add: geoJSONToWKT_def)

text \<open>
  Claim C10. The conversion of a Polygon returns the error "invalid Polygon
  coordinates" unless the coordinates are a sequence whose first element is a sequence
  (the first ring) of at least 4 elements, and succeeds in that case. The text it then
  writes is \<open>POLYGON((\<close>, what the elements of the first ring contribute, and \<open>))\<close>:
  it is the same whatever rings follow the first.
\<close>

theorem geoJSONToWKT_Polygon:
  "(snd (geoJSONToWKT F ''Polygon'' coords) = Some InvalidPolygon \<longleftrightarrow>
      \<not> (\<exists>ring rest. coords = GoSlice (GoSlice ring # rest) \<and> 4 \<le> length ring))
   \<and> (snd (geoJSONToWKT F ''Polygon'' coords) = None \<longleftrightarrow>
      (\<exists>ring rest. coords = GoSlice (GoSlice ring # rest) \<and> 4 \<le> length ring))
   \<and> Error InvalidPolygon = ''invalid Polygon coordinates''
   \<and> geoJSONToWKT F ''Polygon'' (GoSlice (GoSlice ring # rest)) =
       geoJSONToWKT F ''Polygon'' (GoSlice [GoSlice ring])
   \<and> (4 \<le> length ring \<longrightarrow>
        geoJSONToWKT F ''Polygon'' (GoSlice (GoSlice ring # rest)) =
          (''POLYGON(('' @
             concat (map (\<lambda>(i, c). case coordXY c of
                                       None \<Rightarrow> []
                                     | Some (x, y) \<Rightarrow>
                                         (if 0 < i then '', '' else []) @ F x @ '' '' @ F y)
                         (enumerate 0 ring)) @ ''))'', None))"
proof -
  have shape:
    "(snd (geoJSONToWKT F ''Polygon'' coords) = Some InvalidPolygon \<longleftrightarrow>
        \<not> (\<exists>ring rest. coords = GoSlice (GoSlice ring # rest) \<and> 4 \<le> length ring))
     \<and> (snd (geoJSONToWKT F ''Polygon'' coords) = None \<longleftrightarrow>
        (\<exists>ring rest. coords = GoSlice (GoSlice ring # rest) \<and> 4 \<le> length ring))"
    by (simp add: geoJSONToWKT_def split: goval.split) (auto simp add: neq_Nil_conv)
  have first: "geoJSONToWKT F ''Polygon'' (GoSlice (GoSlice ring # rest)) =
      geoJSONToWKT F ''Polygon'' (GoSlice [GoSlice ring])"
    by (simp add: geoJSONToWKT_def)
  have body: "4 \<le> length ring \<longrightarrow>
      geoJSONToWKT F ''Polygon'' (GoSlice (GoSlice ring # rest)) =
        (''POLYGON(('' @
           concat (map (\<lambda>(i, c). case coordXY c of
                                     None \<Rightarrow> []
                                   | Some (x, y) \<Rightarrow>
                                       (if 0 < i then '', '' else []) @ F x @ '' '' @ F y)
                       (enumerate 0 ring)) @ ''))'', None)"
    by (simp add: geoJSONToWKT_def coordLoop_concat)
  from shape first body show ?thesis by simp
qed

text \<open>
  C10 on a Polygon with a square as its first ring and a second ring, on a Polygon
  whose first ring has 3 elements, and on a Polygon without a ring.
\<close>

theorem geoJSONToWKT_Polygon_witness:
  "4 \<le> length [GoSlice [GoFloat64 0, GoFloat64 0], GoSlice [GoFloat64 one_f, GoFloat64 0],
                 GoSlice [GoFloat64 one_f, GoFloat64 one_f], GoSlice [GoFloat64 0, GoFloat64 0]]
   \<and> geoJSONToWKT fmt_f ''Polygon''
        (GoSlice [GoSlice [GoSlice [GoFloat64 0, GoFloat64 0], GoSlice [GoFloat64 one_f, GoFloat64 0],
                           GoSlice [GoFloat64 one_f, GoFloat64 one_f],
                           GoSlice [GoFloat64 0, GoFloat64 0]],
                  GoSlice [GoSlice [GoFloat64 one_f, GoFloat64 one_f]]]) =
       (''POLYGON((0.000000 0.000000, 1.000000 0.000000, 1.000000 1.000000, 0.000000 0.000000))'',
        None)
   \<and> snd (geoJSONToWKT fmt_f ''Polygon''
        (GoSlice [GoSlice [GoSlice [GoFloat64 0, GoFloat64 0], GoSlice [GoFloat64 one_f, GoFloat64 0],
                           GoSlice [GoFloat64 one_f, GoFloat64 one_f]]])) = Some InvalidPolygon
   \<and> snd (geoJSONToWKT fmt_f ''Polygon'' (GoSlice [])) = Some InvalidPolygon"
  using geoJSONToWKT_Polygon
          [of fmt_f "GoSlice []"
              "[GoSlice [GoFloat64 0, GoFloat64 0], GoSlice [GoFloat64 one_f, GoFloat64 0],
                GoSlice [GoFloat64 one_f, GoFloat64 one_f], GoSlice [GoFloat64 0, GoFloat64 0]]"
              "[GoSlice [GoSlice [GoFloat64 one_f, GoFloat64 one_f]]]"]
        geoJSONToWKT_Polygon
          [of fmt_f "GoSlice [GoSlice [GoSlice [GoFloat64 0, GoFloat64 0],
                                       GoSlice [GoFloat64 one_f, GoFloat64 0],
                                       GoSlice [GoFloat64 one_f, GoFloat64 one_f]]]"]
  by (simp add: coordXY_def fmt_f_def one_f_def)

end
